theory Spec2Isabelle
  imports Main
begin

section \<open>Memento auth API: user records kept as JSON files in a data lake\<close>

text \<open>
  The program (\<^verbatim>\<open>azure_adls.py\<close>) is three HTTP handlers, \<^verbatim>\<open>signup\<close>,
  \<^verbatim>\<open>signin\<close> and \<^verbatim>\<open>get_profile\<close>, over five storage helpers. Every helper
  and handler below is a translation of the Python function of the same name: a raised
  exception is the \<open>Inl\<close> of a sum, and the storage the calls change is passed in and
  returned.

  Three libraries do the work the program itself does not: the data-lake client, \<^verbatim>\<open>json\<close>
  and \<^verbatim>\<open>bcrypt\<close>. None of them is code of the program. The data-lake service is modelled
  by an in-memory file store (\<open>adls\<close>), and \<^verbatim>\<open>json\<close> and \<^verbatim>\<open>bcrypt\<close> are parameters
  of the handlers (\<open>json_module\<close>, \<open>bcrypt_module\<close>), so that what is proved of a handler
  holds for every behaviour of the two libraries, and what is assumed of a library is written
  in the theorem.

  Python's \<^verbatim>\<open>str\<close> and \<^verbatim>\<open>bytes\<close> are both \<open>string\<close> here: \<^verbatim>\<open>encode("utf-8")\<close>
  and \<^verbatim>\<open>decode("utf-8")\<close> are the identity of the model.
\<close>

subsection \<open>Exceptions\<close>

datatype exn =
    ResourceNotFoundError
  | ResourceExistsError
  | HttpResponseError string
  | HTTPException nat string
  | KeyError string
  | ValueError string
  | AttributeError string
  | ValidationError string

text \<open>
  \<open>HTTPException status_code detail\<close> is FastAPI's; the framework answers it with that
  status and detail. Every other exception that leaves a handler is unhandled (the
  framework answers 500). \<open>HttpResponseError\<close> stands for a failure of the storage service
  that is neither "not found" nor "already exists".
\<close>

subsection \<open>Values read from JSON\<close>

datatype json =
    JNull
  | JBool bool
  | JNumber string
  | JString string
  | JArray "json list"
  | JObject "(string \<times> json) list"

text \<open>
  What \<^verbatim>\<open>json.loads\<close> can return. A number keeps its literal: no handler looks at one.
  A \<^verbatim>\<open>dict\<close> is an association list in insertion order, each key once.
\<close>

record json_module =
  dumps :: "json \<Rightarrow> string"
  loads :: "string \<Rightarrow> exn + json"

record bcrypt_module =
  hashpw :: "string \<Rightarrow> string \<Rightarrow> exn + string"
  checkpw :: "string \<Rightarrow> string \<Rightarrow> exn + bool"

text \<open>
  \<open>hashpw password salt\<close> and \<open>checkpw password hashed_password\<close>, as the library names
  them. \<^verbatim>\<open>bcrypt.gensalt()\<close> is random: the salt it returns is an argument of \<open>signup\<close>.
\<close>

subsection \<open>The storage service\<close>

record lake_file =
  flushed :: string
  appended :: string

record adls =
  file_system :: bool
  directory :: bool
  files :: "string \<rightharpoonup> lake_file"
  outage :: "string option"

text \<open>
  The state of the service as the program can observe it: whether the file system
  \<^verbatim>\<open>memento-users\<close> and its directory \<^verbatim>\<open>users\<close> exist, and the files by path. A file
  holds its \<open>flushed\<close> content and the data \<open>appended\<close> since the last flush. While
  \<open>outage\<close> is \<open>Some msg\<close> every call fails with \<open>HttpResponseError msg\<close> and changes
  nothing (the network is down, the service throttles).
\<close>

definition FILE_SYSTEM_NAME :: string where
  "FILE_SYSTEM_NAME = ''memento-users''"

definition DIRECTORY_NAME :: string where
  "DIRECTORY_NAME = ''users''"

definition create_file_system :: "adls \<Rightarrow> (exn + unit) \<times> adls" where
  "create_file_system st =
     (case outage st of
        Some msg \<Rightarrow> (Inl (HttpResponseError msg), st)
      | None \<Rightarrow>
          if file_system st then (Inl ResourceExistsError, st)
          else (Inr (), st\<lparr>file_system := True\<rparr>))"

definition create_directory :: "adls \<Rightarrow> (exn + unit) \<times> adls" where
  "create_directory st =
     (case outage st of
        Some msg \<Rightarrow> (Inl (HttpResponseError msg), st)
      | None \<Rightarrow>
          if file_system st then
            (if directory st then (Inl ResourceExistsError, st)
             else (Inr (), st\<lparr>directory := True\<rparr>))
          else (Inl ResourceNotFoundError, st))"

definition get_file_properties :: "string \<Rightarrow> adls \<Rightarrow> (exn + unit) \<times> adls" where
  "get_file_properties path st =
     (case outage st of
        Some msg \<Rightarrow> (Inl (HttpResponseError msg), st)
      | None \<Rightarrow>
          if file_system st then
            (case files st path of
               None \<Rightarrow> (Inl ResourceNotFoundError, st)
             | Some f \<Rightarrow> (Inr (), st))
          else (Inl ResourceNotFoundError, st))"

definition create_file :: "string \<Rightarrow> adls \<Rightarrow> (exn + unit) \<times> adls" where
  "create_file path st =
     (case outage st of
        Some msg \<Rightarrow> (Inl (HttpResponseError msg), st)
      | None \<Rightarrow>
          if file_system st then
            (Inr (), st\<lparr>files := (files st)(path \<mapsto> \<lparr>flushed = [], appended = []\<rparr>)\<rparr>)
          else (Inl ResourceNotFoundError, st))"

definition append_data :: "string \<Rightarrow> string \<Rightarrow> nat \<Rightarrow> nat \<Rightarrow> adls \<Rightarrow> (exn + unit) \<times> adls" where
  "append_data path data offset len st =
     (case outage st of
        Some msg \<Rightarrow> (Inl (HttpResponseError msg), st)
      | None \<Rightarrow>
          if file_system st then
            (case files st path of
               None \<Rightarrow> (Inl ResourceNotFoundError, st)
             | Some f \<Rightarrow>
                 if offset = length (flushed f) + length (appended f) \<and> len = length data
                 then (Inr (), st\<lparr>files := (files st)(path \<mapsto> f\<lparr>appended := appended f @ data\<rparr>)\<rparr>)
                 else (Inl (HttpResponseError ''InvalidRange''), st))
          else (Inl ResourceNotFoundError, st))"

definition flush_data :: "string \<Rightarrow> nat \<Rightarrow> adls \<Rightarrow> (exn + unit) \<times> adls" where
  "flush_data path position st =
     (case outage st of
        Some msg \<Rightarrow> (Inl (HttpResponseError msg), st)
      | None \<Rightarrow>
          if file_system st then
            (case files st path of
               None \<Rightarrow> (Inl ResourceNotFoundError, st)
             | Some f \<Rightarrow>
                 if position = length (flushed f) + length (appended f)
                 then (Inr (), st\<lparr>files := (files st)(path \<mapsto>
                         \<lparr>flushed = flushed f @ appended f, appended = []\<rparr>)\<rparr>)
                 else (Inl (HttpResponseError ''InvalidFlushPosition''), st))
          else (Inl ResourceNotFoundError, st))"

definition download_file :: "string \<Rightarrow> adls \<Rightarrow> (exn + string) \<times> adls" where
  "download_file path st =
     (case outage st of
        Some msg \<Rightarrow> (Inl (HttpResponseError msg), st)
      | None \<Rightarrow>
          if file_system st then
            (case files st path of
               None \<Rightarrow> (Inl ResourceNotFoundError, st)
             | Some f \<Rightarrow> (Inr (flushed f), st))
          else (Inl ResourceNotFoundError, st))"

text \<open>
  The calls of the data-lake client the program makes, on that state.
  \<open>create_file\<close> replaces a file that exists by an empty one; \<open>append_data\<close> takes the
  data, the offset it goes to (which has to be the end of what the file holds) and its
  length (which has to be the length of the data); \<open>flush_data\<close> makes the appended data
  the file's content, given the length of the whole; \<open>download_file\<close> is
  \<^verbatim>\<open>download_file().readall()\<close>: the flushed content. The program gives
  \<^verbatim>\<open>len(content)\<close>, a number of characters, where the service counts bytes; the two
  agree because \<^verbatim>\<open>json.dumps\<close> writes ASCII only.
  A call on a file that is not there, or in a file system that is not there, raises
  \<open>ResourceNotFoundError\<close>; creating a file system or a directory that is there raises
  \<open>ResourceExistsError\<close>.
\<close>

subsection \<open>Requests and responses\<close>

record date =
  year :: nat
  month :: nat
  day :: nat

record SignupRequest =
  name :: string
  email :: string
  password :: string
  dob :: date

record SigninRequest =
  email :: string
  password :: string

record SigninResponse =
  token :: string

record ProfileResponse =
  name :: string
  email :: string
  dob :: string

definition digit :: "nat \<Rightarrow> char" where
  "digit d =
     (if d = 0 then CHR ''0'' else if d = 1 then CHR ''1'' else if d = 2 then CHR ''2''
      else if d = 3 then CHR ''3'' else if d = 4 then CHR ''4'' else if d = 5 then CHR ''5''
      else if d = 6 then CHR ''6'' else if d = 7 then CHR ''7'' else if d = 8 then CHR ''8''
      else CHR ''9'')"

definition str_date :: "date \<Rightarrow> string" where
  "str_date d =
     [digit (year d div 1000 mod 10), digit (year d div 100 mod 10),
      digit (year d div 10 mod 10), digit (year d mod 10), CHR ''-'',
      digit (month d div 10 mod 10), digit (month d mod 10), CHR ''-'',
      digit (day d div 10 mod 10), digit (day d mod 10)]"

text \<open>
  \<^verbatim>\<open>str(req.dob)\<close> of a \<^verbatim>\<open>datetime.date\<close>: \<^verbatim>\<open>YYYY-MM-DD\<close>, zero padded. A Python
  date has a year from 1 to 9999, a month from 1 to 12 and a day from 1 to 31, so four, two
  and two digits are all there are.
\<close>

subsection \<open>Storage helpers\<close>

definition except_ResourceExistsError_pass :: "(exn + unit) \<times> adls \<Rightarrow> (exn + unit) \<times> adls" where
  "except_ResourceExistsError_pass r =
     (case r of
        (Inl e, st) \<Rightarrow> if e = ResourceExistsError then (Inr (), st) else (Inl e, st)
      | (Inr u, st) \<Rightarrow> (Inr u, st))"

definition ensure_filesystem_and_directory :: "adls \<Rightarrow> (exn + unit) \<times> adls" where
  "ensure_filesystem_and_directory st =
     (case except_ResourceExistsError_pass (create_file_system st) of
        (Inl e, st1) \<Rightarrow> (Inl e, st1)
      | (Inr u, st1) \<Rightarrow> except_ResourceExistsError_pass (create_directory st1))"

definition user_file_client :: "string \<Rightarrow> string" where
  "user_file_client email' = DIRECTORY_NAME @ ''/'' @ email' @ ''.json''"

text \<open>
  \<open>user_file_client\<close> gives the path of the file the client is for: the file
  \<^verbatim>\<open><email>.json\<close> of the directory.
\<close>

definition user_exists :: "string \<Rightarrow> adls \<Rightarrow> (exn + bool) \<times> adls" where
  "user_exists email' st =
     (case get_file_properties (user_file_client email') st of
        (Inr u, st1) \<Rightarrow> (Inr True, st1)
      | (Inl e, st1) \<Rightarrow>
          if e = ResourceNotFoundError then (Inr False, st1) else (Inl e, st1))"

definition write_user_record ::
  "json_module \<Rightarrow> (string \<times> string) list \<Rightarrow> adls \<Rightarrow> (exn + unit) \<times> adls" where
  "write_user_record js data st =
     (case map_of data ''email'' of
        None \<Rightarrow> (Inl (KeyError ''email''), st)
      | Some email' \<Rightarrow>
          (let fc = user_file_client email';
               content = dumps js (JObject (map (\<lambda>(k, v). (k, JString v)) data))
           in case create_file fc st of
                (Inl e, st1) \<Rightarrow> (Inl e, st1)
              | (Inr u, st1) \<Rightarrow>
                  (case append_data fc content 0 (length content) st1 of
                     (Inl e, st2) \<Rightarrow> (Inl e, st2)
                   | (Inr u, st2) \<Rightarrow> flush_data fc (length content) st2)))"

text \<open>
  The \<^verbatim>\<open>dict\<close> that \<open>write_user_record\<close> is given is the one \<open>signup\<close> builds: its values
  are strings.
\<close>

definition read_user_record :: "json_module \<Rightarrow> string \<Rightarrow> adls \<Rightarrow> (exn + json) \<times> adls" where
  "read_user_record js email' st =
     (case download_file (user_file_client email') st of
        (Inl e, st1) \<Rightarrow> (Inl e, st1)
      | (Inr raw, st1) \<Rightarrow> (loads js raw, st1))"

subsection \<open>Endpoints\<close>

definition dict_get :: "json \<Rightarrow> string \<Rightarrow> json \<Rightarrow> exn + json" where
  "dict_get d key default' =
     (case d of
        JObject kvs \<Rightarrow> (case map_of kvs key of None \<Rightarrow> Inr default' | Some v \<Rightarrow> Inr v)
      | _ \<Rightarrow> Inl (AttributeError ''get''))"

definition str_encode :: "json \<Rightarrow> exn + string" where
  "str_encode v = (case v of JString s \<Rightarrow> Inr s | _ \<Rightarrow> Inl (AttributeError ''encode''))"

text \<open>
  \<^verbatim>\<open>stored.get(key, default)\<close> and \<^verbatim>\<open>value.encode("utf-8")\<close>: a value that is not a
  \<^verbatim>\<open>dict\<close> has no \<^verbatim>\<open>get\<close>, one that is not a \<^verbatim>\<open>str\<close> no \<^verbatim>\<open>encode\<close>.
\<close>

definition signup ::
  "bcrypt_module \<Rightarrow> json_module \<Rightarrow> string \<Rightarrow> SignupRequest \<Rightarrow> adls
     \<Rightarrow> (exn + (string \<times> bool) list) \<times> adls" where
  "signup bc js salt req st =
     (case user_exists (SignupRequest.email req) st of
        (Inl e, st1) \<Rightarrow> (Inl e, st1)
      | (Inr True, st1) \<Rightarrow> (Inl (HTTPException 400 ''User already exists''), st1)
      | (Inr False, st1) \<Rightarrow>
          (case hashpw bc (SignupRequest.password req) salt of
             Inl e \<Rightarrow> (Inl e, st1)
           | Inr pw_hash \<Rightarrow>
               (let record = [(''name'', SignupRequest.name req),
                              (''email'', SignupRequest.email req),
                              (''dob'', str_date (SignupRequest.dob req)),
                              (''password_hash'', pw_hash)]
                in case write_user_record js record st1 of
                     (Inl e, st2) \<Rightarrow> (Inl e, st2)
                   | (Inr u, st2) \<Rightarrow> (Inr [(''ok'', True)], st2))))"

definition signin ::
  "bcrypt_module \<Rightarrow> json_module \<Rightarrow> SigninRequest \<Rightarrow> adls \<Rightarrow> (exn + SigninResponse) \<times> adls" where
  "signin bc js req st =
     (case read_user_record js (SigninRequest.email req) st of
        (Inl e, st1) \<Rightarrow>
          if e = ResourceNotFoundError
          then (Inl (HTTPException 401 ''Invalid credentials''), st1)
          else (Inl e, st1)
      | (Inr stored, st1) \<Rightarrow>
          (case dict_get stored ''password_hash'' (JString []) of
             Inl e \<Rightarrow> (Inl e, st1)
           | Inr h \<Rightarrow>
               (case str_encode h of
                  Inl e \<Rightarrow> (Inl e, st1)
                | Inr stored_hash \<Rightarrow>
                    (case checkpw bc (SigninRequest.password req) stored_hash of
                       Inl e \<Rightarrow> (Inl e, st1)
                     | Inr ok \<Rightarrow>
                         if ok
                         then (Inr \<lparr>token = ''dummy-token-for-'' @ SigninRequest.email req\<rparr>, st1)
                         else (Inl (HTTPException 401 ''Invalid credentials''), st1)))))"

definition ProfileResponse_init :: "json \<Rightarrow> string \<Rightarrow> json \<Rightarrow> exn + ProfileResponse" where
  "ProfileResponse_init name' email' dob' =
     (case name' of
        JString n \<Rightarrow>
          (case dob' of
             JString d \<Rightarrow> Inr \<lparr>ProfileResponse.name = n, email = email', dob = d\<rparr>
           | _ \<Rightarrow> Inl (ValidationError ''dob''))
      | _ \<Rightarrow> Inl (ValidationError ''name''))"

text \<open>
  \<^verbatim>\<open>ProfileResponse(name=name, email=email, dob=dob)\<close>: the model's fields \<^verbatim>\<open>name\<close> and
  \<^verbatim>\<open>dob\<close> are \<^verbatim>\<open>str\<close>, and pydantic refuses a value of another type. The email is the
  query parameter, which the framework validated as an \<^verbatim>\<open>EmailStr\<close> before the handler ran.
\<close>

definition get_profile ::
  "json_module \<Rightarrow> string \<Rightarrow> adls \<Rightarrow> (exn + ProfileResponse) \<times> adls" where
  "get_profile js email' st =
     (case read_user_record js email' st of
        (Inl e, st1) \<Rightarrow>
          if e = ResourceNotFoundError
          then (Inl (HTTPException 404 ''Profile not found''), st1)
          else (Inl e, st1)
      | (Inr record, st1) \<Rightarrow>
          (case dict_get record ''name'' (JString []) of
             Inl e \<Rightarrow> (Inl e, st1)
           | Inr name' \<Rightarrow>
               (case dict_get record ''dob'' (JString []) of
                  Inl e \<Rightarrow> (Inl e, st1)
                | Inr dob' \<Rightarrow> (ProfileResponse_init name' email' dob', st1))))"

section \<open>The libraries, for the examples\<close>

text \<open>
  The handlers above take \<^verbatim>\<open>json\<close> and \<^verbatim>\<open>bcrypt\<close> as parameters. To run them on a
  concrete request the two libraries are needed as functions that compute; this section
  gives one of each. Neither is a translation of code of the program, and no theorem about
  a handler below is restricted to them unless its statement names them.
\<close>

subsection \<open>A JSON module\<close>

text \<open>
  \<open>encode\<close> writes a value as \<^verbatim>\<open>json.dumps\<close> does with its defaults: \<^verbatim>\<open>", "\<close> between
  items, \<^verbatim>\<open>": "\<close> after a key, and in a string a backslash escape for the quote, the
  backslash and every character outside the printable ASCII range, so that the text is
  ASCII and its length in characters is its length in bytes. \<open>decode\<close> reads the text of
  an object whose values are strings, in the layout \<open>encode\<close> writes, which is what the
  program stores; any other text it refuses with \<open>ValueError\<close> (Python's
  \<^verbatim>\<open>JSONDecodeError\<close> is one).
\<close>

definition hex_digit :: "nat \<Rightarrow> char" where
  "hex_digit d =
     (if d < 10 then digit d else if d = 10 then CHR ''a'' else if d = 11 then CHR ''b''
      else if d = 12 then CHR ''c'' else if d = 13 then CHR ''d'' else if d = 14 then CHR ''e''
      else CHR ''f'')"

definition hex_value :: "char \<Rightarrow> nat option" where
  "hex_value c =
     map_of (zip ''0123456789abcdef'' [0, 1, 2, 3, 4, 5, 6, 7, 8, 9, 10, 11, 12, 13, 14, 15]) c"

definition escape_char :: "char \<Rightarrow> string" where
  "escape_char c =
     (if c = CHR 0x22 then [CHR 0x5C, CHR 0x22]
      else if c = CHR 0x5C then [CHR 0x5C, CHR 0x5C]
      else if c = CHR 0x0A then [CHR 0x5C, CHR ''n'']
      else if c = CHR 0x0D then [CHR 0x5C, CHR ''r'']
      else if c = CHR 0x09 then [CHR 0x5C, CHR ''t'']
      else if c = CHR 0x08 then [CHR 0x5C, CHR ''b'']
      else if c = CHR 0x0C then [CHR 0x5C, CHR ''f'']
      else if of_char c < (32::nat) \<or> (126::nat) < of_char c
      then [CHR 0x5C, CHR ''u'', CHR ''0'', CHR ''0'',
            hex_digit (of_char c div 16), hex_digit (of_char c mod 16)]
      else [c])"

definition encode_str :: "string \<Rightarrow> string" where
  "encode_str s = CHR 0x22 # concat (map escape_char s) @ [CHR 0x22]"

fun join :: "string \<Rightarrow> string list \<Rightarrow> string" where
  "join sep [] = []"
| "join sep [x] = x"
| "join sep (x # y # ys) = x @ sep @ join sep (y # ys)"

fun encode :: "json \<Rightarrow> string" where
  "encode JNull = ''null''"
| "encode (JBool b) = (if b then ''true'' else ''false'')"
| "encode (JNumber lit) = lit"
| "encode (JString s) = encode_str s"
| "encode (JArray xs) = ''['' @ join '', '' (map encode xs) @ '']''"
| "encode (JObject kvs) =
     ''{'' @ join '', '' (map (\<lambda>(k, v). encode_str k @ '': '' @ encode v) kvs) @ ''}''"

definition simple_escape :: "char \<Rightarrow> char option" where
  "simple_escape e =
     (if e = CHR 0x22 then Some (CHR 0x22)
      else if e = CHR 0x5C then Some (CHR 0x5C)
      else if e = CHR ''/'' then Some (CHR ''/'')
      else if e = CHR ''n'' then Some (CHR 0x0A)
      else if e = CHR ''r'' then Some (CHR 0x0D)
      else if e = CHR ''t'' then Some (CHR 0x09)
      else if e = CHR ''b'' then Some (CHR 0x08)
      else if e = CHR ''f'' then Some (CHR 0x0C)
      else None)"

fun read_string :: "string \<Rightarrow> (string \<times> string) option" where
  "read_string [] = None"
| "read_string (c # cs) =
     (if c = CHR 0x22 then Some ([], cs)
      else if c = CHR 0x5C then
        (case cs of
           [] \<Rightarrow> None
         | e # ds \<Rightarrow>
             if e = CHR ''u'' then
               (case ds of
                  a # b # x # y # r \<Rightarrow>
                    if a = CHR ''0'' \<and> b = CHR ''0'' then
                      (case hex_value x of
                         None \<Rightarrow> None
                       | Some h \<Rightarrow>
                           (case hex_value y of
                              None \<Rightarrow> None
                            | Some l \<Rightarrow>
                                map_option (\<lambda>(s, rest). (char_of (16 * h + l) # s, rest))
                                  (read_string r)))
                    else None
                | _ \<Rightarrow> None)
             else
               (case simple_escape e of
                  None \<Rightarrow> None
                | Some ch \<Rightarrow> map_option (\<lambda>(s, rest). (ch # s, rest)) (read_string ds)))
      else map_option (\<lambda>(s, rest). (c # s, rest)) (read_string cs))"

fun read_members :: "nat \<Rightarrow> string \<Rightarrow> (string \<times> json) list option" where
  "read_members 0 s = None"
| "read_members (Suc n) s =
     (case s of
        [] \<Rightarrow> None
      | q # s1 \<Rightarrow>
          if q = CHR 0x22 then
            (case read_string s1 of
               None \<Rightarrow> None
             | Some (k, s2) \<Rightarrow>
                 if take 3 s2 = [CHR '':'', CHR '' '', CHR 0x22] then
                   (case read_string (drop 3 s2) of
                      None \<Rightarrow> None
                    | Some (v, s4) \<Rightarrow>
                        if s4 = ''}'' then Some [(k, JString v)]
                        else if take 2 s4 = '', ''
                        then map_option ((#) (k, JString v)) (read_members n (drop 2 s4))
                        else None)
                 else None)
          else None)"

definition decode :: "string \<Rightarrow> exn + json" where
  "decode raw =
     (if raw = ''{}'' then Inr (JObject [])
      else if take 1 raw = ''{'' then
        (case read_members (length raw) (drop 1 raw) of
           None \<Rightarrow> Inl (ValueError ''JSONDecodeError'')
         | Some kvs \<Rightarrow> Inr (JObject kvs))
      else Inl (ValueError ''JSONDecodeError''))"

definition json_lib :: json_module where
  "json_lib = \<lparr>dumps = encode, loads = decode\<rparr>"

subsection \<open>The bcrypt module\<close>

text \<open>
  The interface of the \<^verbatim>\<open>bcrypt\<close> package (release 5) around its digest.
  \<open>hashpw password salt\<close> first refuses a password of more than 72 bytes with a
  \<^verbatim>\<open>ValueError\<close>. It then reads the salt as the \<^verbatim>\<open>$\<close>-separated parts of a
  bcrypt string: a version (\<^verbatim>\<open>2a\<close>, \<^verbatim>\<open>2b\<close>, \<^verbatim>\<open>2x\<close> or \<^verbatim>\<open>2y\<close>), a cost
  from 4 to 31 written in decimal (a leading \<^verbatim>\<open>+\<close> is read over), and at least 22
  characters of salt in bcrypt's base-64 alphabet, the 22nd of which carries two bits only
  and so is one of \<^verbatim>\<open>.\<close>, \<^verbatim>\<open>O\<close>, \<^verbatim>\<open>e\<close> and \<^verbatim>\<open>u\<close>; a salt that does not read
  so raises \<^verbatim>\<open>ValueError("Invalid salt")\<close>. Its result is the same prefix followed by
  the digest of the password.
  \<open>checkpw password hashed_password\<close> is \<open>hashpw\<close> with the stored hash as the salt,
  compared with the stored hash: it returns a boolean where \<open>hashpw\<close> returns, and raises
  where \<open>hashpw\<close> raises. The digest itself (the Blowfish key schedule) is the parameter
  \<open>digest\<close>, with the cost, the 22 characters of salt and the password as arguments.
\<close>

fun split_on :: "char \<Rightarrow> string \<Rightarrow> string list" where
  "split_on sep [] = [[]]"
| "split_on sep (c # cs) =
     (if c = sep then [] # split_on sep cs
      else (case split_on sep cs of [] \<Rightarrow> [[c]] | p # ps \<Rightarrow> (c # p) # ps))"

definition decimal_value :: "string \<Rightarrow> nat option" where
  "decimal_value s =
     (if s \<noteq> [] \<and> list_all (\<lambda>c. c \<in> set ''0123456789'') s
      then Some (foldl (\<lambda>n c. 10 * n + (case hex_value c of None \<Rightarrow> 0 | Some d \<Rightarrow> d)) 0 s)
      else None)"

definition base64_char :: "char \<Rightarrow> bool" where
  "base64_char c =
     (c \<in> set ''./ABCDEFGHIJKLMNOPQRSTUVWXYZabcdefghijklmnopqrstuvwxyz0123456789'')"

definition cost_value :: "string \<Rightarrow> nat option" where
  "cost_value s = decimal_value (if take 1 s = ''+'' then drop 1 s else s)"

definition password_too_long :: string where
  "password_too_long =
     ''password cannot be longer than 72 bytes, truncate manually if necessary (e.g. my_password[:72])''"

definition bcrypt_hashpw ::
  "(nat \<Rightarrow> string \<Rightarrow> string \<Rightarrow> string) \<Rightarrow> string \<Rightarrow> string \<Rightarrow> exn + string" where
  "bcrypt_hashpw digest password' salt =
     (if 72 < length password' then Inl (ValueError password_too_long)
      else
        (case filter (\<lambda>p. p \<noteq> []) (split_on (CHR ''$'') salt) of
           [version, cost, remainder] \<Rightarrow>
             (case cost_value cost of
                None \<Rightarrow> Inl (ValueError ''Invalid salt'')
              | Some rounds \<Rightarrow>
                  if version \<in> set [''2a'', ''2b'', ''2x'', ''2y''] \<and> 4 \<le> rounds \<and> rounds \<le> 31
                     \<and> 22 \<le> length remainder \<and> list_all base64_char (take 22 remainder)
                     \<and> take 1 (drop 21 remainder) \<in> set [''.'', ''O'', ''e'', ''u'']
                  then Inr (''$'' @ version @ ''$'' @ [digit (rounds div 10), digit (rounds mod 10)]
                            @ ''$'' @ take 22 remainder @ digest rounds (take 22 remainder) password')
                  else Inl (ValueError ''Invalid salt''))
         | _ \<Rightarrow> Inl (ValueError ''Invalid salt'')))"

definition bcrypt_checkpw ::
  "(nat \<Rightarrow> string \<Rightarrow> string \<Rightarrow> string) \<Rightarrow> string \<Rightarrow> string \<Rightarrow> exn + bool" where
  "bcrypt_checkpw digest password' hashed_password =
     (case bcrypt_hashpw digest password' hashed_password of
        Inl e \<Rightarrow> Inl e
      | Inr h \<Rightarrow> Inr (h = hashed_password))"

definition bcrypt_lib :: "(nat \<Rightarrow> string \<Rightarrow> string \<Rightarrow> string) \<Rightarrow> bcrypt_module" where
  "bcrypt_lib digest = \<lparr>hashpw = bcrypt_hashpw digest, checkpw = bcrypt_checkpw digest\<rparr>"

subsection \<open>Example values\<close>

definition ready_store :: adls where
  "ready_store = \<lparr>file_system = True, directory = True, files = Map.empty, outage = None\<rparr>"

text \<open>
  The storage as the application finds it after its first start: the file system and the
  directory are there, no file is, and the service answers.
\<close>

definition hex_digest :: "nat \<Rightarrow> string \<Rightarrow> string \<Rightarrow> string" where
  "hex_digest rounds salt password' =
     concat (map (\<lambda>c. [hex_digit (of_char c div 16), hex_digit (of_char c mod 16)]) password')"

text \<open>
  A stand-in for the digest where an example needs one that computes: the password in
  hexadecimal. A theorem that takes a digest holds for every digest.
\<close>

definition ann :: SignupRequest where
  "ann = \<lparr>SignupRequest.name = ''Ann'', email = ''a@x.com'', password = ''secret1'',
          dob = \<lparr>year = 1990, month = 1, day = 1\<rparr>\<rparr>"

definition ann_salt :: string where
  "ann_salt = ''$2b$12$abcdefghijklmnopqrstuu''"

definition ann_hash :: string where
  "ann_hash = ''$2b$12$abcdefghijklmnopqrstuu73656372657431''"

definition ann_record :: "(string \<times> string) list" where
  "ann_record = [(''name'', ''Ann''), (''email'', ''a@x.com''), (''dob'', ''1990-01-01''),
                 (''password_hash'', ann_hash)]"

definition ann_file :: lake_file where
  "ann_file = \<lparr>flushed = encode (JObject (map (\<lambda>(k, v). (k, JString v)) ann_record)),
               appended = []\<rparr>"

definition ann_store :: adls where
  "ann_store = ready_store\<lparr>files := [''users/a@x.com.json'' \<mapsto> ann_file]\<rparr>"

text \<open>
  The scenario of the specification: Ann signs up with \<^verbatim>\<open>a@x.com\<close>, \<^verbatim>\<open>secret1\<close> and
  1990-01-01. \<open>ann_salt\<close> is a value \<^verbatim>\<open>bcrypt.gensalt()\<close> can return, \<open>ann_hash\<close> what
  \<open>hashpw\<close> makes of it with the stand-in digest, and \<open>ann_store\<close> the storage after her
  signup.
\<close>

definition long_password :: string where
  "long_password = replicate 73 (CHR ''x'')"

text \<open>
  A password of 73 bytes: one more than bcrypt takes.
\<close>

definition foreign_store :: adls where
  "foreign_store = ready_store\<lparr>files := [''users/a@x.com.json'' \<mapsto>
     \<lparr>flushed = encode (JObject [(''email'', JString ''z@y.org''),
                                  (''dob'', JString ''2000-02-03'')]),
      appended = []\<rparr>]\<rparr>"

definition plaintext_store :: adls where
  "plaintext_store = ready_store\<lparr>files := [''users/a@x.com.json'' \<mapsto>
     \<lparr>flushed = encode (JObject [(''email'', JString ''a@x.com''),
                                  (''password_hash'', JString ''secret1'')]),
      appended = []\<rparr>]\<rparr>"

text \<open>
  Two storages whose file for \<^verbatim>\<open>a@x.com\<close> was not written by \<open>signup\<close>. In
  \<open>foreign_store\<close> the record has no name and no password hash, and another email inside;
  in \<open>plaintext_store\<close> its password hash is not a bcrypt string.
\<close>

section \<open>The record store\<close>

subsection \<open>Existence check\<close>

text \<open>
  Claim C9. \<open>user_exists\<close> answers \<open>True\<close> exactly when the file of that email is there
  and \<open>False\<close> when it is not (a missing file system holds no file): absence is a normal
  result, not an exception. Not found is the one storage condition it turns into a
  result: a failure of the service is raised on to the caller as it came. The storage is
  left as it was in each case.
\<close>

theorem user_exists_iff_file_present:
  "user_exists e st =
     (case outage st of
        Some msg \<Rightarrow> (Inl (HttpResponseError msg), st)
      | None \<Rightarrow> (Inr (file_system st \<and> files st (user_file_client e) \<noteq> None), st))"
  by (simp add: user_exists_def get_file_properties_def split: option.splits)

theorem user_exists_iff_file_present_witness:
  "user_exists ''a@x.com''
     (ready_store\<lparr>files := [''users/a@x.com.json'' \<mapsto> \<lparr>flushed = ''{}'', appended = []\<rparr>]\<rparr>)
     = (Inr True, ready_store\<lparr>files := [''users/a@x.com.json'' \<mapsto> \<lparr>flushed = ''{}'', appended = []\<rparr>]\<rparr>)
   \<and> user_exists ''a@x.com'' ready_store = (Inr False, ready_store)
   \<and> user_exists ''a@x.com'' (ready_store\<lparr>outage := Some ''timeout''\<rparr>)
     = (Inl (HttpResponseError ''timeout''), ready_store\<lparr>outage := Some ''timeout''\<rparr>)"
  using user_exists_iff_file_present [of "''a@x.com''"
          "ready_store\<lparr>files := [''users/a@x.com.json'' \<mapsto> \<lparr>flushed = ''{}'', appended = []\<rparr>]\<rparr>"]
        user_exists_iff_file_present [of "''a@x.com''" ready_store]
        user_exists_iff_file_present [of "''a@x.com''" "ready_store\<lparr>outage := Some ''timeout''\<rparr>"]
  by (simp add: ready_store_def user_file_client_def DIRECTORY_NAME_def)

subsection \<open>Namespace setup\<close>

lemma ensure_once:
  "outage st = None \<Longrightarrow>
   ensure_filesystem_and_directory st = (Inr (), st\<lparr>file_system := True, directory := True\<rparr>)"
  by (cases st) (simp add: ensure_filesystem_and_directory_def except_ResourceExistsError_pass_def
        create_file_system_def create_directory_def)

lemma ensure_iterated:
  assumes "outage st = None"
  shows "((\<lambda>s. snd (ensure_filesystem_and_directory s)) ^^ Suc k) st
           = st\<lparr>file_system := True, directory := True\<rparr>"
proof (induction k)
  case 0
  show ?case using assms by (simp add: ensure_once)
next
  case (Suc k)
  let ?run = "\<lambda>s. snd (ensure_filesystem_and_directory s)"
  let ?st' = "st\<lparr>file_system := True, directory := True\<rparr>"
  have "(?run ^^ Suc (Suc k)) st = ?run ((?run ^^ Suc k) st)" by simp
  also have "\<dots> = ?run ?st'" using Suc by simp
  also have "\<dots> = ?st'" using assms by (simp add: ensure_once)
  finally show ?case .
qed

text \<open>
  Claim C8. While the service answers, \<open>ensure_filesystem_and_directory\<close> returns
  normally and leaves the file system and the directory existing and every file as it
  was, whatever was there before. Where the file system or the directory is there already
  the client raises \<open>ResourceExistsError\<close>, and the function passes over it: run on a
  storage that has both, it succeeds and changes nothing. Run any number of times in a
  row, each run succeeds and the storage after them is the storage after the first.
\<close>

theorem ensure_idempotent:
  assumes "outage st = None"
  shows "ensure_filesystem_and_directory st
           = (Inr (), st\<lparr>file_system := True, directory := True\<rparr>)
       \<and> (file_system st \<longrightarrow> create_file_system st = (Inl ResourceExistsError, st))
       \<and> (file_system st \<and> directory st \<longrightarrow>
            create_directory st = (Inl ResourceExistsError, st)
            \<and> ensure_filesystem_and_directory st = (Inr (), st))
       \<and> ((\<lambda>s. snd (ensure_filesystem_and_directory s)) ^^ Suc n) st
           = st\<lparr>file_system := True, directory := True\<rparr>
       \<and> fst (ensure_filesystem_and_directory
                (((\<lambda>s. snd (ensure_filesystem_and_directory s)) ^^ n) st)) = Inr ()"
proof -
  let ?run = "\<lambda>s. snd (ensure_filesystem_and_directory s)"
  have out: "outage ((?run ^^ n) st) = None"
  proof (cases n)
    case 0
    then show ?thesis using assms by simp
  next
    case (Suc j)
    then show ?thesis using ensure_iterated [OF assms, of j] assms by simp
  qed
  have raised: "create_file_system st = (Inl ResourceExistsError, st)" if "file_system st"
    using that assms by (simp add: create_file_system_def)
  have both: "create_directory st = (Inl ResourceExistsError, st)
              \<and> ensure_filesystem_and_directory st = (Inr (), st)"
    if "file_system st \<and> directory st"
    using that assms by (simp add: create_directory_def ensure_once)
  show ?thesis
    using assms ensure_iterated [OF assms, of n] ensure_once [OF out] raised both
    by (simp add: ensure_once)
qed

theorem ensure_idempotent_witness:
  "outage (ready_store\<lparr>file_system := False, directory := False\<rparr>) = None
   \<and> ensure_filesystem_and_directory (ready_store\<lparr>file_system := False, directory := False\<rparr>)
       = (Inr (), ready_store)
   \<and> create_file_system ready_store = (Inl ResourceExistsError, ready_store)
   \<and> create_directory ready_store = (Inl ResourceExistsError, ready_store)
   \<and> ensure_filesystem_and_directory ready_store = (Inr (), ready_store)
   \<and> ((\<lambda>s. snd (ensure_filesystem_and_directory s)) ^^ 3)
        (ready_store\<lparr>file_system := False, directory := False\<rparr>) = ready_store"
  using ensure_idempotent [of "ready_store\<lparr>file_system := False, directory := False\<rparr>" 2]
        ensure_idempotent [of ready_store 0]
  by (simp add: ready_store_def)

subsection \<open>Writing and reading a record\<close>

lemma write_user_record_ok:
  assumes "outage st = None" and "file_system st" and "map_of data ''email'' = Some e"
  shows "write_user_record js data st =
           (Inr (), st\<lparr>files := (files st)(user_file_client e \<mapsto>
              \<lparr>flushed = dumps js (JObject (map (\<lambda>(k, v). (k, JString v)) data)),
               appended = []\<rparr>)\<rparr>)"
  using assms
  by (simp add: write_user_record_def create_file_def append_data_def flush_data_def Let_def)

lemma read_user_record_present:
  assumes "outage st = None" and "file_system st" and "files st (user_file_client e) = Some f"
  shows "read_user_record js e st = (loads js (flushed f), st)"
  using assms by (simp add: read_user_record_def download_file_def)

lemma read_user_record_absent:
  assumes "outage st = None" and "\<not> file_system st \<or> files st (user_file_client e) = None"
  shows "read_user_record js e st = (Inl ResourceNotFoundError, st)"
  using assms by (auto simp add: read_user_record_def download_file_def)

text \<open>
  Claim C6. On a storage that answers and has its file system, \<open>write_user_record\<close> of
  a record with an \<^verbatim>\<open>email\<close> key returns normally and leaves, under the path of that email,
  a file whose flushed content is exactly the JSON text of the whole record and which has
  nothing appended and unflushed, whatever the path held before. A download of that path
  then returns that text, byte for byte, and, for a JSON module that reads back what it
  wrote for this record, \<open>read_user_record\<close> of the email returns the record, every
  field as written.
\<close>

theorem write_then_read:
  assumes "outage st = None" and "file_system st" and "map_of data ''email'' = Some e"
    and "loads js (dumps js (JObject (map (\<lambda>(k, v). (k, JString v)) data)))
           = Inr (JObject (map (\<lambda>(k, v). (k, JString v)) data))"
  shows "write_user_record js data st =
           (Inr (), st\<lparr>files := (files st)(user_file_client e \<mapsto>
              \<lparr>flushed = dumps js (JObject (map (\<lambda>(k, v). (k, JString v)) data)),
               appended = []\<rparr>)\<rparr>)
       \<and> read_user_record js e (snd (write_user_record js data st)) =
           (Inr (JObject (map (\<lambda>(k, v). (k, JString v)) data)), snd (write_user_record js data st))
       \<and> download_file (user_file_client e) (snd (write_user_record js data st)) =
           (Inr (dumps js (JObject (map (\<lambda>(k, v). (k, JString v)) data))),
            snd (write_user_record js data st))"
proof -
  let ?doc = "dumps js (JObject (map (\<lambda>(k, v). (k, JString v)) data))"
  let ?st' = "st\<lparr>files := (files st)(user_file_client e \<mapsto> \<lparr>flushed = ?doc, appended = []\<rparr>)\<rparr>"
  have w: "write_user_record js data st = (Inr (), ?st')"
    using write_user_record_ok [OF assms(1,2,3)] .
  have ready: "outage ?st' = None" "file_system ?st'"
    using assms(1,2) by simp_all
  have there: "files ?st' (user_file_client e) = Some \<lparr>flushed = ?doc, appended = []\<rparr>"
    by simp
  have r: "read_user_record js e ?st' = (Inr (JObject (map (\<lambda>(k, v). (k, JString v)) data)), ?st')"
    using read_user_record_present [OF ready there, of js] assms(4) by simp
  have d: "download_file (user_file_client e) ?st' = (Inr ?doc, ?st')"
    using ready by (simp add: download_file_def)
  show ?thesis using w r d by simp
qed

lemma round_trip_ann:
  "loads json_lib (dumps json_lib (JObject (map (\<lambda>(k, v). (k, JString v)) ann_record)))
     = Inr (JObject (map (\<lambda>(k, v). (k, JString v)) ann_record))"
  by (simp add: json_lib_def ann_record_def ann_hash_def decode_def encode_str_def
        escape_char_def simple_escape_def)

theorem write_then_read_witness:
  "write_user_record json_lib ann_record
      (ready_store\<lparr>files := [''users/a@x.com.json'' \<mapsto> \<lparr>flushed = ''old'', appended = ''new''\<rparr>]\<rparr>)
     = (Inr (), ann_store)
   \<and> read_user_record json_lib ''a@x.com'' ann_store
     = (Inr (JObject [(''name'', JString ''Ann''), (''email'', JString ''a@x.com''),
                      (''dob'', JString ''1990-01-01''), (''password_hash'', JString ann_hash)]),
        ann_store)"
proof -
  let ?st = "ready_store\<lparr>files := [''users/a@x.com.json'' \<mapsto> \<lparr>flushed = ''old'', appended = ''new''\<rparr>]\<rparr>"
  have pre: "outage ?st = None" "file_system ?st" "map_of ann_record ''email'' = Some ''a@x.com''"
    by (simp_all add: ready_store_def ann_record_def)
  note all = write_then_read [OF pre round_trip_ann]
  have w: "write_user_record json_lib ann_record ?st = (Inr (), ann_store)"
    using all [THEN conjunct1]
    by (simp add: ann_store_def ann_file_def ready_store_def json_lib_def user_file_client_def
          DIRECTORY_NAME_def)
  have r: "read_user_record json_lib ''a@x.com'' ann_store
     = (Inr (JObject [(''name'', JString ''Ann''), (''email'', JString ''a@x.com''),
                      (''dob'', JString ''1990-01-01''), (''password_hash'', JString ann_hash)]),
        ann_store)"
    using all [THEN conjunct2, THEN conjunct1] unfolding w by (simp add: ann_record_def)
  show ?thesis using w r by simp
qed

subsection \<open>The JSON module reads back the records it writes\<close>

lemma hex_value_hex_digit: "n < 16 \<Longrightarrow> hex_value (hex_digit n) = Some n"
proof -
  assume "n < 16"
  then consider "n = 0" | "n = 1" | "n = 2" | "n = 3" | "n = 4" | "n = 5" | "n = 6" | "n = 7"
    | "n = 8" | "n = 9" | "n = 10" | "n = 11" | "n = 12" | "n = 13" | "n = 14" | "n = 15"
    by atomize_elim arith
  then show ?thesis
    by cases (simp_all add: hex_value_def hex_digit_def digit_def)
qed

lemma of_char_less_256: "of_char c < (256::nat)"
proof -
  have "of_char c mod 256 = (of_char c :: nat)" by simp
  then show ?thesis by (metis mod_less_divisor zero_less_numeral)
qed

lemma read_string_escape_char:
  "read_string (escape_char c @ rest) = map_option (\<lambda>(s, r). (c # s, r)) (read_string rest)"
proof -
  let ?n = "of_char c :: nat"
  have "?n div 16 < 16"
    using of_char_less_256 [of c] by (simp add: div_less_iff_less_mult)
  then have hi: "hex_value (hex_digit (?n div 16)) = Some (?n div 16)"
    by (rule hex_value_hex_digit)
  have lo: "hex_value (hex_digit (?n mod 16)) = Some (?n mod 16)"
    by (intro hex_value_hex_digit) simp
  have whole: "char_of (16 * (?n div 16) + ?n mod 16) = c" by simp
  show ?thesis
    by (simp add: escape_char_def simple_escape_def hi lo whole)
qed

lemma read_string_escaped:
  "read_string (concat (map escape_char s) @ CHR 0x22 # rest) = Some (s, rest)"
  by (induction s) (simp_all add: read_string_escape_char)


lemma join_Cons: "ys \<noteq> [] \<Longrightarrow> join sep (x # ys) = x @ sep @ join sep ys"
  by (cases ys) simp_all

lemma length_join: "\<forall>x \<in> set xs. x \<noteq> [] \<Longrightarrow> length xs \<le> length (join sep xs)"
proof (induction sep xs rule: join.induct)
  case (1 sep)
  show ?case by simp
next
  case (2 sep x)
  then show ?case by (cases x) simp_all
next
  case (3 sep x y ys)
  then show ?case by (cases x) simp_all
qed

lemma read_members_join:
  assumes "data \<noteq> []" and "length data \<le> n"
  shows "read_members n
           (join '', '' (map (\<lambda>(k, v). encode_str k @ '': '' @ encode_str v) data) @ ''}'')
         = Some (map (\<lambda>(k, v). (k, JString v)) data)"
  using assms
proof (induction data arbitrary: n rule: list_nonempty_induct)
  case (single x)
  obtain k v where x: "x = (k, v)" by (cases x)
  from single obtain m where n: "n = Suc m" by (cases n) simp_all
  show ?case
    by (simp add: x n encode_str_def read_string_escaped)
next
  case (cons x xs)
  obtain k v where x: "x = (k, v)" by (cases x)
  from cons.prems obtain m where n: "n = Suc m" and m: "length xs \<le> m" by (cases n) simp_all
  have split:
    "join '', '' (map (\<lambda>(k, v). encode_str k @ '': '' @ encode_str v) (x # xs)) @ ''}''
       = encode_str k @ '': '' @ encode_str v @ '', ''
         @ (join '', '' (map (\<lambda>(k, v). encode_str k @ '': '' @ encode_str v) xs) @ ''}'')"
    using cons.hyps by (simp add: x join_Cons)
  show ?case
    unfolding split using cons.IH [OF m]
    by (simp add: x n encode_str_def read_string_escaped)
qed

lemma decode_encode_record:
  "decode (encode (JObject (map (\<lambda>(k, v). (k, JString v)) data)))
     = Inr (JObject (map (\<lambda>(k, v). (k, JString v)) data))"
proof (cases "data = []")
  case True
  then show ?thesis by (simp add: decode_def)
next
  case False
  let ?members = "map (\<lambda>(k, v). encode_str k @ '': '' @ encode_str v) data"
  have enc: "encode (JObject (map (\<lambda>(k, v). (k, JString v)) data)) = ''{'' @ join '', '' ?members @ ''}''"
    by (simp add: comp_def case_prod_unfold)
  have nonempty: "\<forall>x \<in> set ?members. x \<noteq> []"
    by (auto simp add: encode_str_def)
  have long: "length data \<le> length (join '', '' ?members)"
    using length_join [OF nonempty, of "'', ''"] by simp
  have "0 < length data" using False by simp
  with long have body: "join '', '' ?members \<noteq> []" by auto
  have fuel: "length data \<le> length (''{'' @ join '', '' ?members @ ''}'')"
    using long by simp
  have "decode (''{'' @ join '', '' ?members @ ''}'')
          = Inr (JObject (map (\<lambda>(k, v). (k, JString v)) data))"
    using body read_members_join [OF False fuel] by (simp add: decode_def)
  then show ?thesis by (simp only: enc)
qed

text \<open>
  With the JSON module of this theory nothing is assumed of the library: for every record
  with an \<^verbatim>\<open>email\<close> key, whatever its strings contain, writing it and reading it by that
  email returns it.
\<close>

theorem write_then_read_json_lib:
  assumes "outage st = None" and "file_system st" and "map_of data ''email'' = Some e"
  shows "write_user_record json_lib data st =
           (Inr (), st\<lparr>files := (files st)(user_file_client e \<mapsto>
              \<lparr>flushed = encode (JObject (map (\<lambda>(k, v). (k, JString v)) data)),
               appended = []\<rparr>)\<rparr>)
       \<and> read_user_record json_lib e (snd (write_user_record json_lib data st)) =
           (Inr (JObject (map (\<lambda>(k, v). (k, JString v)) data)),
            snd (write_user_record json_lib data st))"
proof -
  let ?doc = "encode (JObject (map (\<lambda>(k, v). (k, JString v)) data))"
  let ?st' = "st\<lparr>files := (files st)(user_file_client e \<mapsto> \<lparr>flushed = ?doc, appended = []\<rparr>)\<rparr>"
  have w: "write_user_record json_lib data st = (Inr (), ?st')"
    using write_user_record_ok [OF assms, of json_lib] by (simp add: json_lib_def)
  have ready: "outage ?st' = None" "file_system ?st'"
    using assms(1,2) by simp_all
  have there: "files ?st' (user_file_client e) = Some \<lparr>flushed = ?doc, appended = []\<rparr>"
    by simp
  have "read_user_record json_lib e ?st' = (decode ?doc, ?st')"
    using read_user_record_present [OF ready there, of json_lib] by (simp add: json_lib_def)
  then show ?thesis using w by (simp add: decode_encode_record del: encode.simps)
qed

theorem write_then_read_json_lib_witness:
  "write_user_record json_lib ann_record ready_store = (Inr (), ann_store)
   \<and> fst (read_user_record json_lib ''a@x.com'' ann_store)
       = Inr (JObject (map (\<lambda>(k, v). (k, JString v)) ann_record))"
proof -
  have pre: "outage ready_store = None" "file_system ready_store"
    "map_of ann_record ''email'' = Some ''a@x.com''"
    by (simp_all add: ready_store_def ann_record_def)
  note all = write_then_read_json_lib [OF pre]
  have w: "write_user_record json_lib ann_record ready_store = (Inr (), ann_store)"
    using all [THEN conjunct1]
    by (simp add: ann_store_def ann_file_def ready_store_def user_file_client_def DIRECTORY_NAME_def)
  show ?thesis
    using all [THEN conjunct2] unfolding w by (simp add: w)
qed

section \<open>The handlers\<close>

subsection \<open>Signup\<close>

lemma user_exists_ready:
  assumes "outage st = None" and "file_system st"
  shows "user_exists e st = (Inr (files st (user_file_client e) \<noteq> None), st)"
  using assms by (simp add: user_exists_def get_file_properties_def split: option.splits)


lemma hashpw_ann: "hashpw (bcrypt_lib hex_digest) ''secret1'' ann_salt = Inr ann_hash"
  by (simp add: bcrypt_lib_def bcrypt_hashpw_def cost_value_def ann_salt_def ann_hash_def decimal_value_def
        hex_value_def base64_char_def hex_digest_def hex_digit_def digit_def)




subsection \<open>Signin\<close>

lemma signin_present:
  assumes "outage st = None" and "file_system st"
    and "files st (user_file_client (SigninRequest.email req)) = Some f"
    and "loads js (flushed f) = Inr (JObject d)"
    and "dict_get (JObject d) ''password_hash'' (JString []) = Inr (JString h)"
  shows "signin bc js req st =
           (case checkpw bc (SigninRequest.password req) h of
              Inl e \<Rightarrow> (Inl e, st)
            | Inr ok \<Rightarrow>
                if ok then (Inr \<lparr>token = ''dummy-token-for-'' @ SigninRequest.email req\<rparr>, st)
                else (Inl (HTTPException 401 ''Invalid credentials''), st))"
  using assms(4,5)
  by (simp add: signin_def read_user_record_present [OF assms(1,2,3)] str_encode_def)

text \<open>
  While the storage answers, a signin for an email that has no file, and a signin for an
  email whose stored record holds a hash that \<open>checkpw\<close> finds not to match the password,
  fail alike: \<open>HTTPException 401\<close> with the detail \<^verbatim>\<open>Invalid credentials\<close>, the storage
  unchanged. The two responses are the same value.
\<close>

theorem signin_invalid_credentials:
  assumes "outage st = None"
  shows "(\<not> file_system st \<or> files st (user_file_client (SigninRequest.email req)) = None \<longrightarrow>
            signin bc js req st = (Inl (HTTPException 401 ''Invalid credentials''), st))
       \<and> (\<forall>f d h.
            file_system st
            \<and> files st (user_file_client (SigninRequest.email req)) = Some f
            \<and> loads js (flushed f) = Inr (JObject d)
            \<and> dict_get (JObject d) ''password_hash'' (JString []) = Inr (JString h)
            \<and> checkpw bc (SigninRequest.password req) h = Inr False \<longrightarrow>
            signin bc js req st = (Inl (HTTPException 401 ''Invalid credentials''), st))"
proof (intro conjI impI allI)
  assume "\<not> file_system st \<or> files st (user_file_client (SigninRequest.email req)) = None"
  then show "signin bc js req st = (Inl (HTTPException 401 ''Invalid credentials''), st)"
    by (simp add: signin_def read_user_record_absent [OF assms])
next
  fix f d h
  assume rec: "file_system st
            \<and> files st (user_file_client (SigninRequest.email req)) = Some f
            \<and> loads js (flushed f) = Inr (JObject d)
            \<and> dict_get (JObject d) ''password_hash'' (JString []) = Inr (JString h)
            \<and> checkpw bc (SigninRequest.password req) h = Inr False"
  then show "signin bc js req st = (Inl (HTTPException 401 ''Invalid credentials''), st)"
    using assms signin_present [where st = st and req = req and f = f and js = js and d = d
            and h = h and bc = bc]
    by simp
qed

lemma loads_ann_file:
  "loads json_lib (flushed ann_file) = Inr (JObject (map (\<lambda>(k, v). (k, JString v)) ann_record))"
  using round_trip_ann by (simp add: ann_file_def json_lib_def)

lemma checkpw_ann:
  "checkpw (bcrypt_lib hex_digest) ''secret1'' ann_hash = Inr True"
  "checkpw (bcrypt_lib hex_digest) ''wrong'' ann_hash = Inr False"
  by (simp_all add: bcrypt_lib_def bcrypt_checkpw_def bcrypt_hashpw_def cost_value_def ann_hash_def
        decimal_value_def hex_value_def base64_char_def hex_digest_def hex_digit_def digit_def)

lemma ann_store_ready:
  "outage ann_store = None" "file_system ann_store"
  "files ann_store (user_file_client ''a@x.com'') = Some ann_file"
  "files ann_store (user_file_client ''b@x.com'') = None"
  by (simp_all add: ann_store_def ready_store_def user_file_client_def DIRECTORY_NAME_def)

lemma ann_stored_hash:
  "dict_get (JObject (map (\<lambda>(k, v). (k, JString v)) ann_record)) ''password_hash'' (JString [])
     = Inr (JString ann_hash)"
  by (simp add: dict_get_def ann_record_def)

theorem signin_invalid_credentials_witness:
  "signin (bcrypt_lib hex_digest) json_lib \<lparr>SigninRequest.email = ''b@x.com'', password = ''secret1''\<rparr>
      ann_store = (Inl (HTTPException 401 ''Invalid credentials''), ann_store)
   \<and> signin (bcrypt_lib hex_digest) json_lib \<lparr>SigninRequest.email = ''a@x.com'', password = ''wrong''\<rparr>
      ann_store = (Inl (HTTPException 401 ''Invalid credentials''), ann_store)"
proof -
  let ?unknown = "\<lparr>SigninRequest.email = ''b@x.com'', password = ''secret1''\<rparr>"
  let ?wrong = "\<lparr>SigninRequest.email = ''a@x.com'', password = ''wrong''\<rparr>"
  have first: "signin (bcrypt_lib hex_digest) json_lib ?unknown ann_store
                 = (Inl (HTTPException 401 ''Invalid credentials''), ann_store)"
    using signin_invalid_credentials [OF ann_store_ready(1), where req = ?unknown
            and bc = "bcrypt_lib hex_digest" and js = json_lib]
          ann_store_ready(4)
    by simp
  have second: "signin (bcrypt_lib hex_digest) json_lib ?wrong ann_store
                 = (Inl (HTTPException 401 ''Invalid credentials''), ann_store)"
    using signin_invalid_credentials [OF ann_store_ready(1), where req = ?wrong
            and bc = "bcrypt_lib hex_digest" and js = json_lib, THEN conjunct2, rule_format,
            of ann_file "map (\<lambda>(k, v). (k, JString v)) ann_record" ann_hash]
          ann_store_ready(2,3) loads_ann_file ann_stored_hash checkpw_ann(2)
    by simp
  show ?thesis using first second by simp
qed

text \<open>
  Claim C2, as the code has it. The two failures are the same response only where
  \<open>checkpw\<close> returns. \<open>signin\<close> calls it outside any \<^verbatim>\<open>try\<close>, and bcrypt raises a
  \<^verbatim>\<open>ValueError\<close> for a password of more than 72 bytes: with such a password a signin
  for an email that has a record, whatever hash it stores, ends in that exception, while
  the same signin for an email that has no file ends in \<open>HTTPException 401\<close>. The
  response tells the caller which emails are signed up.
\<close>

theorem signin_long_password_raises:
  assumes "read_user_record js (SigninRequest.email req) st = (Inr (JObject d), st1)"
    and "dict_get (JObject d) ''password_hash'' (JString []) = Inr (JString h)"
    and "72 < length (SigninRequest.password req)"
  shows "signin (bcrypt_lib digest) js req st = (Inl (ValueError password_too_long), st1)
       \<and> (\<forall>other. outage st = None \<and> files st (user_file_client other) = None \<longrightarrow>
            signin (bcrypt_lib digest) js
              \<lparr>SigninRequest.email = other, password = SigninRequest.password req\<rparr> st
            = (Inl (HTTPException 401 ''Invalid credentials''), st))"
proof (intro conjI allI impI)
  show "signin (bcrypt_lib digest) js req st = (Inl (ValueError password_too_long), st1)"
    using assms
    by (simp add: signin_def str_encode_def bcrypt_lib_def bcrypt_checkpw_def bcrypt_hashpw_def)
next
  fix other
  assume "outage st = None \<and> files st (user_file_client other) = None"
  then show "signin (bcrypt_lib digest) js
               \<lparr>SigninRequest.email = other, password = SigninRequest.password req\<rparr> st
             = (Inl (HTTPException 401 ''Invalid credentials''), st)"
    by (simp add: signin_def read_user_record_absent)
qed

theorem signin_long_password_raises_witness:
  "signin (bcrypt_lib hex_digest) json_lib
      \<lparr>SigninRequest.email = ''a@x.com'', password = long_password\<rparr> ann_store
   = (Inl (ValueError password_too_long), ann_store)
   \<and> signin (bcrypt_lib hex_digest) json_lib
      \<lparr>SigninRequest.email = ''b@x.com'', password = long_password\<rparr> ann_store
   = (Inl (HTTPException 401 ''Invalid credentials''), ann_store)"
proof -
  let ?req = "\<lparr>SigninRequest.email = ''a@x.com'', password = long_password\<rparr>"
  have r: "read_user_record json_lib (SigninRequest.email ?req) ann_store
             = (Inr (JObject (map (\<lambda>(k, v). (k, JString v)) ann_record)), ann_store)"
    using read_user_record_present [OF ann_store_ready(1,2,3), of json_lib] loads_ann_file
    by simp
  have long: "72 < length (SigninRequest.password ?req)"
    by (simp add: long_password_def)
  note both = signin_long_password_raises [OF r ann_stored_hash long, of hex_digest]
  have known: "signin (bcrypt_lib hex_digest) json_lib ?req ann_store
                 = (Inl (ValueError password_too_long), ann_store)"
    using both [THEN conjunct1] .
  have unknown: "signin (bcrypt_lib hex_digest) json_lib
      \<lparr>SigninRequest.email = ''b@x.com'', password = long_password\<rparr> ann_store
   = (Inl (HTTPException 401 ''Invalid credentials''), ann_store)"
    using both [THEN conjunct2, rule_format, of "''b@x.com''"] ann_store_ready(1,4)
    by simp
  show ?thesis using known unknown by simp
qed

text \<open>
  Claim C7. Whatever the libraries and the storage, a signin that returns a response
  returns the token \<^verbatim>\<open>dummy-token-for-<email>\<close>, which is not empty; a signin
  whose record is there and whose password \<open>checkpw\<close> accepts does return one; and two
  signins that succeed for the same email return the same response.
\<close>

theorem signin_token:
  "(\<forall>r st'. signin bc js req st = (Inr r, st') \<longrightarrow>
       token r = ''dummy-token-for-'' @ SigninRequest.email req \<and> token r \<noteq> [])
   \<and> (\<forall>f d h.
        outage st = None \<and> file_system st
        \<and> files st (user_file_client (SigninRequest.email req)) = Some f
        \<and> loads js (flushed f) = Inr (JObject d)
        \<and> dict_get (JObject d) ''password_hash'' (JString []) = Inr (JString h)
        \<and> checkpw bc (SigninRequest.password req) h = Inr True \<longrightarrow>
        signin bc js req st = (Inr \<lparr>token = ''dummy-token-for-'' @ SigninRequest.email req\<rparr>, st))
   \<and> (\<forall>bc2 js2 req2 st2 r r2 s s2.
        signin bc js req st = (Inr r, s) \<and> signin bc2 js2 req2 st2 = (Inr r2, s2)
        \<and> SigninRequest.email req2 = SigninRequest.email req \<longrightarrow> r2 = r)"
proof -
  have tok: "token r = ''dummy-token-for-'' @ SigninRequest.email q"
    if "signin b j q s = (Inr r, s')" for b j q s r s'
    using that
    by (auto simp add: signin_def split: prod.splits sum.splits if_splits)
  have a: "\<forall>r st'. signin bc js req st = (Inr r, st') \<longrightarrow>
       token r = ''dummy-token-for-'' @ SigninRequest.email req \<and> token r \<noteq> []"
    using tok by fastforce
  have b: "signin bc js req st = (Inr \<lparr>token = ''dummy-token-for-'' @ SigninRequest.email req\<rparr>, st)"
    if "outage st = None \<and> file_system st
        \<and> files st (user_file_client (SigninRequest.email req)) = Some f
        \<and> loads js (flushed f) = Inr (JObject d)
        \<and> dict_get (JObject d) ''password_hash'' (JString []) = Inr (JString h)
        \<and> checkpw bc (SigninRequest.password req) h = Inr True" for f d h
    using that signin_present [where st = st and req = req and f = f and js = js and d = d
            and h = h and bc = bc] by simp
  have c: "r2 = r"
    if "signin bc js req st = (Inr r, s) \<and> signin bc2 js2 req2 st2 = (Inr r2, s2)
        \<and> SigninRequest.email req2 = SigninRequest.email req" for bc2 js2 req2 st2 r r2 s s2
  proof -
    have "token r2 = token r" using that tok [of bc js req st r s] tok [of bc2 js2 req2 st2 r2 s2]
      by simp
    then show ?thesis by simp
  qed
  show ?thesis using a b c by blast
qed

theorem signin_token_witness:
  "signin (bcrypt_lib hex_digest) json_lib \<lparr>SigninRequest.email = ''a@x.com'', password = ''secret1''\<rparr>
      ann_store = (Inr \<lparr>token = ''dummy-token-for-a@x.com''\<rparr>, ann_store)
   \<and> token \<lparr>token = ''dummy-token-for-a@x.com''\<rparr> \<noteq> []"
proof -
  let ?req = "\<lparr>SigninRequest.email = ''a@x.com'', password = ''secret1''\<rparr>"
  have "signin (bcrypt_lib hex_digest) json_lib ?req ann_store
          = (Inr \<lparr>token = ''dummy-token-for-'' @ SigninRequest.email ?req\<rparr>, ann_store)"
    using signin_token [where bc = "bcrypt_lib hex_digest" and js = json_lib and req = ?req
            and st = ann_store, THEN conjunct2, THEN conjunct1, rule_format,
            of ann_file "map (\<lambda>(k, v). (k, JString v)) ann_record" ann_hash]
          ann_store_ready(1,2,3) loads_ann_file ann_stored_hash checkpw_ann(1)
    by simp
  then show ?thesis by simp
qed

subsection \<open>Profile\<close>

lemma get_profile_of_record:
  assumes "read_user_record js e st = (Inr (JObject d), st1)"
  shows "get_profile js e st =
           (ProfileResponse_init
              (case map_of d ''name'' of None \<Rightarrow> JString [] | Some v \<Rightarrow> v) e
              (case map_of d ''dob'' of None \<Rightarrow> JString [] | Some v \<Rightarrow> v), st1)"
  using assms by (simp add: get_profile_def dict_get_def split: option.splits)

text \<open>
  Claim C4. After a signup that succeeds (fresh email, storage answering, password
  hashed, the JSON module reading back the record it wrote), \<open>get_profile\<close> of that email
  returns the response with the name and the email of the request and its date of birth
  in ISO form. A \<open>ProfileResponse\<close> has these three fields and no other, and the value
  returned does not depend on the password, the salt or the hash; the signup itself
  answers \<^verbatim>\<open>{"ok": True}\<close>.
\<close>

theorem profile_after_signup:
  assumes "outage st = None" and "file_system st"
    and "files st (user_file_client (SignupRequest.email req)) = None"
    and "hashpw bc (SignupRequest.password req) salt = Inr h"
    and "loads js (dumps js (JObject
            [(''name'', JString (SignupRequest.name req)),
             (''email'', JString (SignupRequest.email req)),
             (''dob'', JString (str_date (SignupRequest.dob req))),
             (''password_hash'', JString h)]))
         = Inr (JObject
            [(''name'', JString (SignupRequest.name req)),
             (''email'', JString (SignupRequest.email req)),
             (''dob'', JString (str_date (SignupRequest.dob req))),
             (''password_hash'', JString h)])"
  shows "fst (signup bc js salt req st) = Inr [(''ok'', True)]
       \<and> get_profile js (SignupRequest.email req) (snd (signup bc js salt req st)) =
           (Inr \<lparr>ProfileResponse.name = SignupRequest.name req,
                 email = SignupRequest.email req,
                 dob = str_date (SignupRequest.dob req)\<rparr>,
            snd (signup bc js salt req st))"
proof -
  let ?rec = "[(''name'', JString (SignupRequest.name req)),
             (''email'', JString (SignupRequest.email req)),
             (''dob'', JString (str_date (SignupRequest.dob req))),
             (''password_hash'', JString h)]"
  let ?file = "\<lparr>flushed = dumps js (JObject ?rec), appended = []\<rparr>"
  let ?st' = "st\<lparr>files := (files st)(user_file_client (SignupRequest.email req) \<mapsto> ?file)\<rparr>"
  let ?data = "[(''name'', SignupRequest.name req), (''email'', SignupRequest.email req),
                (''dob'', str_date (SignupRequest.dob req)), (''password_hash'', h)]"
  have key: "map_of ?data ''email'' = Some (SignupRequest.email req)" by simp
  have s: "signup bc js salt req st = (Inr [(''ok'', True)], ?st')"
    using assms(3,4) write_user_record_ok [OF assms(1,2) key, of js]
    by (simp add: signup_def user_exists_ready [OF assms(1,2)])
  have ready: "outage ?st' = None" "file_system ?st'"
    using assms(1,2) by simp_all
  have there: "files ?st' (user_file_client (SignupRequest.email req)) = Some ?file"
    by simp
  have r: "read_user_record js (SignupRequest.email req) ?st' = (Inr (JObject ?rec), ?st')"
    using read_user_record_present [OF ready there, of js] assms(5) by simp
  have "get_profile js (SignupRequest.email req) ?st' =
           (Inr \<lparr>ProfileResponse.name = SignupRequest.name req,
                 email = SignupRequest.email req,
                 dob = str_date (SignupRequest.dob req)\<rparr>, ?st')"
    using get_profile_of_record [OF r] by (simp add: ProfileResponse_init_def)
  then show ?thesis using s by simp
qed

theorem profile_after_signup_witness:
  "fst (signup (bcrypt_lib hex_digest) json_lib ann_salt ann ready_store) = Inr [(''ok'', True)]
   \<and> get_profile json_lib ''a@x.com'' (snd (signup (bcrypt_lib hex_digest) json_lib ann_salt ann ready_store))
     = (Inr \<lparr>ProfileResponse.name = ''Ann'', email = ''a@x.com'', dob = ''1990-01-01''\<rparr>,
        snd (signup (bcrypt_lib hex_digest) json_lib ann_salt ann ready_store))"
proof -
  have ready: "outage ready_store = None" "file_system ready_store"
    "files ready_store (user_file_client (SignupRequest.email ann)) = None"
    by (simp_all add: ready_store_def)
  have hashed: "hashpw (bcrypt_lib hex_digest) (SignupRequest.password ann) ann_salt = Inr ann_hash"
    using hashpw_ann by (simp add: ann_def)
  have trip: "loads json_lib (dumps json_lib (JObject
            [(''name'', JString (SignupRequest.name ann)),
             (''email'', JString (SignupRequest.email ann)),
             (''dob'', JString (str_date (SignupRequest.dob ann))),
             (''password_hash'', JString ann_hash)]))
         = Inr (JObject
            [(''name'', JString (SignupRequest.name ann)),
             (''email'', JString (SignupRequest.email ann)),
             (''dob'', JString (str_date (SignupRequest.dob ann))),
             (''password_hash'', JString ann_hash)])"
    using round_trip_ann by (simp add: ann_def ann_record_def str_date_def digit_def)
  show ?thesis
    using profile_after_signup [OF ready hashed trip]
    by (simp add: ann_def str_date_def digit_def)
qed

text \<open>
  Claim C10. When the record read for the queried email is a \<^verbatim>\<open>dict\<close>, \<open>get_profile\<close>
  does not fail for a missing \<^verbatim>\<open>name\<close> or \<^verbatim>\<open>dob\<close> key: the field of the response is
  the empty string where the key is missing and the stored string where it is there. The
  email of the response is the query parameter in every case; the \<^verbatim>\<open>email\<close> key of
  the record is not read.
\<close>

theorem profile_missing_fields:
  assumes "read_user_record js e st = (Inr (JObject d), st1)"
  shows "(map_of d ''name'' = None \<and> map_of d ''dob'' = None \<longrightarrow>
            get_profile js e st = (Inr \<lparr>ProfileResponse.name = [], email = e, dob = []\<rparr>, st1))
       \<and> (\<forall>b. map_of d ''name'' = None \<and> map_of d ''dob'' = Some (JString b) \<longrightarrow>
            get_profile js e st = (Inr \<lparr>ProfileResponse.name = [], email = e, dob = b\<rparr>, st1))
       \<and> (\<forall>n. map_of d ''name'' = Some (JString n) \<and> map_of d ''dob'' = None \<longrightarrow>
            get_profile js e st = (Inr \<lparr>ProfileResponse.name = n, email = e, dob = []\<rparr>, st1))
       \<and> (\<forall>n b. map_of d ''name'' = Some (JString n) \<and> map_of d ''dob'' = Some (JString b) \<longrightarrow>
            get_profile js e st = (Inr \<lparr>ProfileResponse.name = n, email = e, dob = b\<rparr>, st1))"
  by (simp add: get_profile_of_record [OF assms] ProfileResponse_init_def)

lemma read_foreign_record:
  "read_user_record json_lib ''a@x.com'' foreign_store
   = (Inr (JObject [(''email'', JString ''z@y.org''), (''dob'', JString ''2000-02-03'')]),
      foreign_store)"
  by (simp add: read_user_record_def download_file_def foreign_store_def ready_store_def
        user_file_client_def DIRECTORY_NAME_def json_lib_def decode_def encode_str_def
        escape_char_def simple_escape_def)

theorem profile_missing_fields_witness:
  "get_profile json_lib ''a@x.com'' foreign_store
   = (Inr \<lparr>ProfileResponse.name = [], email = ''a@x.com'', dob = ''2000-02-03''\<rparr>,
      foreign_store)"
  using profile_missing_fields [OF read_foreign_record, THEN conjunct2, THEN conjunct1,
          rule_format, of "''2000-02-03''"]
  by simp

subsection \<open>Signin against a record without a usable hash\<close>

lemma bcrypt_hashpw_malformed:
  assumes "length (filter (\<lambda>p. p \<noteq> []) (split_on (CHR ''$'') h)) \<noteq> 3"
  shows "bcrypt_hashpw digest pw h =
           Inl (ValueError (if 72 < length pw then password_too_long else ''Invalid salt''))"
  using assms by (auto simp add: bcrypt_hashpw_def split: list.splits)

text \<open>
  Claim C3, as the code has it. \<open>signin\<close> takes the stored hash to be the string under
  \<^verbatim>\<open>password_hash\<close>, or the empty string when the record has no such key, and hands it
  to \<open>checkpw\<close>. The bcrypt package does not answer \<open>False\<close> to a hash that is not a
  bcrypt string, such as the empty one: it raises \<^verbatim>\<open>ValueError("Invalid salt")\<close> (and,
  before it looks at the hash, a \<^verbatim>\<open>ValueError\<close> of its own for a password of more than 72
  bytes). \<open>signin\<close> calls it outside any \<^verbatim>\<open>try\<close>, so for a stored hash that has not the
  three \<^verbatim>\<open>$\<close>-separated parts of a bcrypt string the exception leaves the handler as it
  is, whatever the password; the request does not end in \<open>HTTPException 401\<close>.
\<close>

theorem signin_malformed_hash_raises:
  assumes "read_user_record js (SigninRequest.email req) st = (Inr (JObject d), st1)"
    and "dict_get (JObject d) ''password_hash'' (JString []) = Inr (JString h)"
    and "length (filter (\<lambda>p. p \<noteq> []) (split_on (CHR ''$'') h)) \<noteq> 3"
  shows "signin (bcrypt_lib digest) js req st =
           (Inl (ValueError (if 72 < length (SigninRequest.password req)
                             then password_too_long else ''Invalid salt'')), st1)
       \<and> (map_of d ''password_hash'' = None \<longrightarrow> h = [])"
  using assms(1,2) bcrypt_hashpw_malformed [OF assms(3), of digest "SigninRequest.password req"]
  by (auto simp add: signin_def str_encode_def bcrypt_lib_def bcrypt_checkpw_def dict_get_def
        split: option.splits)

lemma read_plaintext_record:
  "read_user_record json_lib ''a@x.com'' plaintext_store
   = (Inr (JObject [(''email'', JString ''a@x.com''), (''password_hash'', JString ''secret1'')]),
      plaintext_store)"
  by (simp add: read_user_record_def download_file_def plaintext_store_def ready_store_def
        user_file_client_def DIRECTORY_NAME_def json_lib_def decode_def encode_str_def
        escape_char_def simple_escape_def)

theorem signin_malformed_hash_raises_witness:
  "signin (bcrypt_lib hex_digest) json_lib
      \<lparr>SigninRequest.email = ''a@x.com'', password = ''secret1''\<rparr> foreign_store
   = (Inl (ValueError ''Invalid salt''), foreign_store)
   \<and> signin (bcrypt_lib hex_digest) json_lib
      \<lparr>SigninRequest.email = ''a@x.com'', password = ''secret1''\<rparr> plaintext_store
   = (Inl (ValueError ''Invalid salt''), plaintext_store)"
proof -
  let ?req = "\<lparr>SigninRequest.email = ''a@x.com'', password = ''secret1''\<rparr>"
  have r1: "read_user_record json_lib (SigninRequest.email ?req) foreign_store
     = (Inr (JObject [(''email'', JString ''z@y.org''), (''dob'', JString ''2000-02-03'')]),
        foreign_store)"
    using read_foreign_record by simp
  have r2: "read_user_record json_lib (SigninRequest.email ?req) plaintext_store
     = (Inr (JObject [(''email'', JString ''a@x.com''), (''password_hash'', JString ''secret1'')]),
        plaintext_store)"
    using read_plaintext_record by simp
  have absent: "dict_get (JObject [(''email'', JString ''z@y.org''), (''dob'', JString ''2000-02-03'')])
                  ''password_hash'' (JString []) = Inr (JString [])"
    by (simp add: dict_get_def)
  have plain: "dict_get (JObject [(''email'', JString ''a@x.com''), (''password_hash'', JString ''secret1'')])
                  ''password_hash'' (JString []) = Inr (JString ''secret1'')"
    by (simp add: dict_get_def)
  have no_parts: "length (filter (\<lambda>p. p \<noteq> []) (split_on (CHR ''$'') [])) \<noteq> 3"
    by simp
  have one_part: "length (filter (\<lambda>p. p \<noteq> []) (split_on (CHR ''$'') ''secret1'')) \<noteq> 3"
    by simp
  show ?thesis
    using signin_malformed_hash_raises [OF r1 absent no_parts, of hex_digest]
          signin_malformed_hash_raises [OF r2 plain one_part, of hex_digest]
    by simp
qed

subsection \<open>Signin after signup\<close>

text \<open>
  After a signup that succeeds, a signin for the same email answers as \<open>checkpw\<close> judges
  the attempted password against the hash that the signup stored: the token when it
  matches, \<open>HTTPException 401\<close> with \<^verbatim>\<open>Invalid credentials\<close> when it does not.
\<close>

theorem signin_after_signup:
  assumes "outage st = None" and "file_system st"
    and "files st (user_file_client (SignupRequest.email req)) = None"
    and "hashpw bc (SignupRequest.password req) salt = Inr h"
    and "loads js (dumps js (JObject
            [(''name'', JString (SignupRequest.name req)),
             (''email'', JString (SignupRequest.email req)),
             (''dob'', JString (str_date (SignupRequest.dob req))),
             (''password_hash'', JString h)]))
         = Inr (JObject
            [(''name'', JString (SignupRequest.name req)),
             (''email'', JString (SignupRequest.email req)),
             (''dob'', JString (str_date (SignupRequest.dob req))),
             (''password_hash'', JString h)])"
    and "checkpw bc attempt h = Inr ok"
  shows "fst (signin bc js \<lparr>SigninRequest.email = SignupRequest.email req, password = attempt\<rparr>
                (snd (signup bc js salt req st)))
         = (if ok then Inr \<lparr>token = ''dummy-token-for-'' @ SignupRequest.email req\<rparr>
            else Inl (HTTPException 401 ''Invalid credentials''))"
proof -
  let ?rec = "[(''name'', JString (SignupRequest.name req)),
             (''email'', JString (SignupRequest.email req)),
             (''dob'', JString (str_date (SignupRequest.dob req))),
             (''password_hash'', JString h)]"
  let ?file = "\<lparr>flushed = dumps js (JObject ?rec), appended = []\<rparr>"
  let ?st' = "st\<lparr>files := (files st)(user_file_client (SignupRequest.email req) \<mapsto> ?file)\<rparr>"
  let ?data = "[(''name'', SignupRequest.name req), (''email'', SignupRequest.email req),
                (''dob'', str_date (SignupRequest.dob req)), (''password_hash'', h)]"
  let ?req = "\<lparr>SigninRequest.email = SignupRequest.email req, password = attempt\<rparr>"
  have key: "map_of ?data ''email'' = Some (SignupRequest.email req)" by simp
  have s: "signup bc js salt req st = (Inr [(''ok'', True)], ?st')"
    using assms(3,4) write_user_record_ok [OF assms(1,2) key, of js]
    by (simp add: signup_def user_exists_ready [OF assms(1,2)])
  have ready: "outage ?st' = None" "file_system ?st'"
    using assms(1,2) by simp_all
  have there: "files ?st' (user_file_client (SigninRequest.email ?req)) = Some ?file"
    by simp
  have doc: "loads js (flushed ?file) = Inr (JObject ?rec)"
    using assms(5) by simp
  have stored: "dict_get (JObject ?rec) ''password_hash'' (JString []) = Inr (JString h)"
    by (simp add: dict_get_def)
  show ?thesis
    using signin_present [OF ready there doc stored, of bc] assms(6)
    by (simp add: s)
qed

theorem signin_after_signup_witness:
  "fst (signin (bcrypt_lib hex_digest) json_lib
          \<lparr>SigninRequest.email = ''a@x.com'', password = ''secret1''\<rparr>
          (snd (signup (bcrypt_lib hex_digest) json_lib ann_salt ann ready_store)))
     = Inr \<lparr>token = ''dummy-token-for-a@x.com''\<rparr>
   \<and> fst (signin (bcrypt_lib hex_digest) json_lib
          \<lparr>SigninRequest.email = ''a@x.com'', password = ''wrong''\<rparr>
          (snd (signup (bcrypt_lib hex_digest) json_lib ann_salt ann ready_store)))
     = Inl (HTTPException 401 ''Invalid credentials'')"
proof -
  have ready: "outage ready_store = None" "file_system ready_store"
    "files ready_store (user_file_client (SignupRequest.email ann)) = None"
    by (simp_all add: ready_store_def)
  have hashed: "hashpw (bcrypt_lib hex_digest) (SignupRequest.password ann) ann_salt = Inr ann_hash"
    using hashpw_ann by (simp add: ann_def)
  have trip: "loads json_lib (dumps json_lib (JObject
            [(''name'', JString (SignupRequest.name ann)),
             (''email'', JString (SignupRequest.email ann)),
             (''dob'', JString (str_date (SignupRequest.dob ann))),
             (''password_hash'', JString ann_hash)]))
         = Inr (JObject
            [(''name'', JString (SignupRequest.name ann)),
             (''email'', JString (SignupRequest.email ann)),
             (''dob'', JString (str_date (SignupRequest.dob ann))),
             (''password_hash'', JString ann_hash)])"
    using round_trip_ann by (simp add: ann_def ann_record_def str_date_def digit_def)
  show ?thesis
    using signin_after_signup [OF ready hashed trip checkpw_ann(1)]
          signin_after_signup [OF ready hashed trip checkpw_ann(2)]
    by (simp add: ann_def)
qed

subsection \<open>Unknown profile\<close>

text \<open>
  While the storage answers, \<open>get_profile\<close> of an email that has no file raises
  \<open>HTTPException 404\<close> with the detail \<^verbatim>\<open>Profile not found\<close>.
\<close>

theorem profile_not_found:
  assumes "outage st = None"
    and "\<not> file_system st \<or> files st (user_file_client e) = None"
  shows "get_profile js e st = (Inl (HTTPException 404 ''Profile not found''), st)"
  by (simp add: get_profile_def read_user_record_absent [OF assms])

theorem profile_not_found_witness:
  "get_profile json_lib ''b@x.com'' ann_store
     = (Inl (HTTPException 404 ''Profile not found''), ann_store)"
  using profile_not_found [of ann_store "''b@x.com''" json_lib] ann_store_ready(1,4)
  by simp

subsection \<open>Storage failures\<close>

text \<open>
  A failure of the storage service is not handled anywhere: during an outage every handler
  and helper raises the service's error as it came, and the storage is as it was.
\<close>

theorem storage_failure_propagates:
  assumes "outage st = Some msg"
  shows "signup bc js salt req st = (Inl (HttpResponseError msg), st)
       \<and> signin bc js req2 st = (Inl (HttpResponseError msg), st)
       \<and> get_profile js e st = (Inl (HttpResponseError msg), st)
       \<and> user_exists e st = (Inl (HttpResponseError msg), st)
       \<and> read_user_record js e st = (Inl (HttpResponseError msg), st)
       \<and> ensure_filesystem_and_directory st = (Inl (HttpResponseError msg), st)"
  using assms
  by (simp add: signup_def signin_def get_profile_def user_exists_def read_user_record_def
        get_file_properties_def download_file_def ensure_filesystem_and_directory_def
        except_ResourceExistsError_pass_def create_file_system_def)

theorem storage_failure_propagates_witness:
  "signup (bcrypt_lib hex_digest) json_lib ann_salt ann (ann_store\<lparr>outage := Some ''timeout''\<rparr>)
     = (Inl (HttpResponseError ''timeout''), ann_store\<lparr>outage := Some ''timeout''\<rparr>)
   \<and> get_profile json_lib ''a@x.com'' (ann_store\<lparr>outage := Some ''timeout''\<rparr>)
     = (Inl (HttpResponseError ''timeout''), ann_store\<lparr>outage := Some ''timeout''\<rparr>)"
  using storage_failure_propagates [of "ann_store\<lparr>outage := Some ''timeout''\<rparr>" "''timeout''"
          "bcrypt_lib hex_digest" json_lib ann_salt ann]
  by simp

end
